theory Spec2Isabelle
  imports Complex_Main
begin

section \<open>Python values and errors\<close>

text \<open>
  Python floats are modelled as the real numbers: every arithmetic operation of the source is
  the exact operation on \<^typ>\<open>real\<close>; rounding, infinities, NaN and overflow are outside
  the model. Exceptions are values: a function that can raise returns \<open>py_error + 'a\<close>,
  with \<open>Inl\<close> the exception.
\<close>

datatype py_error = ValueError string | ZeroDivisionError | TypeError | OverflowError | CancelledError

text \<open>Float division \<^verbatim>\<open>a / b\<close>: raises ZeroDivisionError on a zero divisor.\<close>

definition py_div :: "real \<Rightarrow> real \<Rightarrow> py_error + real" where
  "py_div a b = (if b = 0 then Inl ZeroDivisionError else Inr (a / b))"

text \<open>
  \<^verbatim>\<open>v ** 0.5\<close> on a float: the square root for \<open>v \<ge> 0\<close>; for a negative \<open>v\<close>
  Python returns a complex number, which is \<open>None\<close> here.
\<close>

definition pow_half :: "real \<Rightarrow> real option" where
  "pow_half v = (if v < 0 then None else Some (sqrt v))"

section \<open>Vector2D\<close>

datatype Vector2D = Vector2D (vec_x: real) (vec_y: real)

definition Vector2D_add :: "Vector2D \<Rightarrow> Vector2D \<Rightarrow> Vector2D" where
  "Vector2D_add self other = Vector2D (vec_x self + vec_x other) (vec_y self + vec_y other)"

definition Vector2D_sub :: "Vector2D \<Rightarrow> Vector2D \<Rightarrow> Vector2D" where
  "Vector2D_sub self other = Vector2D (vec_x self - vec_x other) (vec_y self - vec_y other)"

definition Vector2D_mul :: "Vector2D \<Rightarrow> real \<Rightarrow> Vector2D" where
  "Vector2D_mul self scalar = Vector2D (vec_x self * scalar) (vec_y self * scalar)"

definition Vector2D_copy :: "Vector2D \<Rightarrow> Vector2D" where
  "Vector2D_copy self = Vector2D (vec_x self) (vec_y self)"

section \<open>CelestialBody\<close>

text \<open>
  The attribute \<^verbatim>\<open>id\<close> is the field \<open>body_id\<close>. The trail list is created by the
  constructor and is owned by the body; vectors are never mutated in place
  (\<^verbatim>\<open>+=\<close> on a Vector2D rebinds the attribute to a new vector), so both are values here.
\<close>

record CelestialBody =
  body_id :: string
  mass :: real
  position :: Vector2D
  velocity :: Vector2D
  radius :: real
  color :: "int \<times> int \<times> int"
  trail :: "Vector2D list"
  max_trail_length :: int

definition CelestialBody_init ::
  "real \<Rightarrow> Vector2D \<Rightarrow> Vector2D \<Rightarrow> real \<Rightarrow> int \<times> int \<times> int \<Rightarrow> string \<Rightarrow> py_error + CelestialBody" where
  "CelestialBody_init m pos vel r col ident =
     (if m \<le> 0 then Inl (ValueError ''Mass must be positive.'')
      else if r \<le> 0 then Inl (ValueError ''Radius must be positive.'')
      else Inr \<lparr> body_id = ident, mass = m, position = pos, velocity = vel, radius = r,
                 color = col, trail = [], max_trail_length = 50 \<rparr>)"

text \<open>
  \<^verbatim>\<open>update_position\<close>: move, append a snapshot of the new position, then pop the
  oldest entry once if the trail is longer than \<open>max_trail_length\<close>. The list is
  never empty at the \<^verbatim>\<open>pop(0)\<close>, which is \<open>tl\<close>.
\<close>

definition update_position :: "CelestialBody \<Rightarrow> real \<Rightarrow> CelestialBody" where
  "update_position self time_step =
     (let moved = self\<lparr> position := Vector2D_add (position self) (Vector2D_mul (velocity self) time_step) \<rparr>;
          appended = moved\<lparr> trail := trail moved @ [Vector2D_copy (position moved)] \<rparr>
      in if int (length (trail appended)) > max_trail_length appended
         then appended\<lparr> trail := tl (trail appended) \<rparr>
         else appended)"

definition apply_force :: "CelestialBody \<Rightarrow> Vector2D \<Rightarrow> real \<Rightarrow> py_error + CelestialBody" where
  "apply_force self force time_step =
     (if mass self = 0 then Inr self
      else (case py_div 1 (mass self) of
              Inl e \<Rightarrow> Inl e
            | Inr inv_mass \<Rightarrow>
                (let acceleration = Vector2D_mul force inv_mass
                 in Inr (self\<lparr> velocity := Vector2D_add (velocity self) (Vector2D_mul acceleration time_step) \<rparr>))))"

section \<open>GravitySimulation\<close>

text \<open>
  Bodies are objects: the simulation holds references into a heap of bodies, and the
  dictionary of forces is keyed by the body object (CelestialBody defines neither
  \<^verbatim>\<open>__eq__\<close> nor \<^verbatim>\<open>__hash__\<close>), that is by reference. The same body may occur
  several times in \<^verbatim>\<open>bodies\<close>. A method takes the heap and the simulation and returns
  them updated; when it raises, the result is the exception alone.
\<close>

type_synonym ref = nat

type_synonym heap = "ref \<Rightarrow> CelestialBody"

record GravitySimulation =
  gravitational_constant :: real
  bodies :: "ref list"
  epsilon :: real
  paused :: bool
  time_step_display :: real
  net_forces :: "ref \<rightharpoonup> Vector2D"

definition GravitySimulation_init :: "real \<Rightarrow> real \<Rightarrow> GravitySimulation" where
  "GravitySimulation_init g eps =
     \<lparr> gravitational_constant = g, bodies = [], epsilon = eps, paused = False,
       time_step_display = 0, net_forces = Map.empty \<rparr>"

definition add_body :: "GravitySimulation \<Rightarrow> ref \<Rightarrow> GravitySimulation" where
  "add_body self body = self\<lparr> bodies := bodies self @ [body] \<rparr>"

text \<open>
  The body of the inner loop of \<^verbatim>\<open>calculate_net_forces\<close> for \<open>i \<noteq> j\<close>: the force
  of \<open>body_b\<close> on \<open>body_a\<close>. When \<open>distance_squared + epsilon\<close> is negative,
  \<^verbatim>\<open>distance_r\<close> is a complex number: the comparison with 0 and the divisions go
  through on complex numbers, and \<^verbatim>\<open>direction_vec * force_magnitude\<close> raises TypeError,
  since \<^verbatim>\<open>Vector2D.__mul__\<close> returns NotImplemented for a scalar that is neither int nor
  float.
\<close>

definition pair_force :: "GravitySimulation \<Rightarrow> CelestialBody \<Rightarrow> CelestialBody \<Rightarrow> py_error + Vector2D" where
  "pair_force self body_a body_b =
     (let delta_position = Vector2D_sub (position body_b) (position body_a);
          distance_squared = (vec_x delta_position)\<^sup>2 + (vec_y delta_position)\<^sup>2
      in case pow_half (distance_squared + epsilon self) of
           None \<Rightarrow> Inl TypeError
         | Some distance_r \<Rightarrow>
             if distance_r = 0 then Inr (Vector2D_mul (Vector2D 0 0) 0)
             else (case py_div (gravitational_constant self * mass body_a * mass body_b) (distance_r\<^sup>2) of
                     Inl e \<Rightarrow> Inl e
                   | Inr force_magnitude \<Rightarrow>
                       (case py_div (vec_x delta_position) distance_r of
                          Inl e \<Rightarrow> Inl e
                        | Inr dir_x \<Rightarrow>
                            (case py_div (vec_y delta_position) distance_r of
                               Inl e \<Rightarrow> Inl e
                             | Inr dir_y \<Rightarrow> Inr (Vector2D_mul (Vector2D dir_x dir_y) force_magnitude)))))"

text \<open>The inner loop over \<^verbatim>\<open>enumerate(self.bodies)\<close>, skipping the index \<open>i\<close> itself.\<close>

fun net_force_loop ::
  "GravitySimulation \<Rightarrow> heap \<Rightarrow> nat \<Rightarrow> ref \<Rightarrow> (nat \<times> ref) list \<Rightarrow> Vector2D \<Rightarrow> py_error + Vector2D" where
  "net_force_loop self h i body_a [] net_force_on_a = Inr net_force_on_a"
| "net_force_loop self h i body_a ((j, body_b) # rest) net_force_on_a =
     (if i = j then net_force_loop self h i body_a rest net_force_on_a
      else (case pair_force self (h body_a) (h body_b) of
              Inl e \<Rightarrow> Inl e
            | Inr force_vec \<Rightarrow>
                net_force_loop self h i body_a rest (Vector2D_add net_force_on_a force_vec)))"

text \<open>The outer loop: one dictionary entry per body object, a later entry replacing an earlier one.\<close>

fun forces_loop ::
  "GravitySimulation \<Rightarrow> heap \<Rightarrow> (nat \<times> ref) list \<Rightarrow> (ref \<rightharpoonup> Vector2D) \<Rightarrow> py_error + (ref \<rightharpoonup> Vector2D)" where
  "forces_loop self h [] current_forces = Inr current_forces"
| "forces_loop self h ((i, body_a) # rest) current_forces =
     (case net_force_loop self h i body_a (enumerate 0 (bodies self)) (Vector2D 0 0) of
        Inl e \<Rightarrow> Inl e
      | Inr net_force_on_a \<Rightarrow> forces_loop self h rest (current_forces(body_a \<mapsto> net_force_on_a)))"

definition calculate_net_forces ::
  "heap \<Rightarrow> GravitySimulation \<Rightarrow> py_error + ((ref \<rightharpoonup> Vector2D) \<times> heap \<times> GravitySimulation)" where
  "calculate_net_forces h self =
     (case forces_loop self h (enumerate 0 (bodies self)) Map.empty of
        Inl e \<Rightarrow> Inl e
      | Inr current_forces \<Rightarrow> Inr (current_forces, h, self\<lparr> net_forces := current_forces \<rparr>))"

text \<open>\<^verbatim>\<open>forces_this_step.get(body, Vector2D(0, 0))\<close>\<close>

definition forces_get :: "(ref \<rightharpoonup> Vector2D) \<Rightarrow> ref \<Rightarrow> Vector2D" where
  "forces_get forces body = (case forces body of None \<Rightarrow> Vector2D 0 0 | Some f \<Rightarrow> f)"

fun apply_forces_loop :: "heap \<Rightarrow> (ref \<rightharpoonup> Vector2D) \<Rightarrow> real \<Rightarrow> ref list \<Rightarrow> py_error + heap" where
  "apply_forces_loop h forces time_step [] = Inr h"
| "apply_forces_loop h forces time_step (body # rest) =
     (case apply_force (h body) (forces_get forces body) time_step of
        Inl e \<Rightarrow> Inl e
      | Inr b' \<Rightarrow> apply_forces_loop (h(body := b')) forces time_step rest)"

fun update_positions_loop :: "heap \<Rightarrow> real \<Rightarrow> ref list \<Rightarrow> heap" where
  "update_positions_loop h time_step [] = h"
| "update_positions_loop h time_step (body # rest) =
     update_positions_loop (h(body := update_position (h body) time_step)) time_step rest"

definition update :: "heap \<Rightarrow> GravitySimulation \<Rightarrow> real \<Rightarrow> py_error + (heap \<times> GravitySimulation)" where
  "update h self time_step =
     (if paused self then Inr (h, self)
      else (case calculate_net_forces h self of
              Inl e \<Rightarrow> Inl e
            | Inr (forces_this_step, h1, self1) \<Rightarrow>
                (case apply_forces_loop h1 forces_this_step time_step (bodies self1) of
                   Inl e \<Rightarrow> Inl e
                 | Inr h2 \<Rightarrow> Inr (update_positions_loop h2 time_step (bodies self1), self1))))"

section \<open>The background update loop\<close>

text \<open>
  \<^verbatim>\<open>_run_simulation_update_loop\<close> suspends only in \<^verbatim>\<open>await asyncio.sleep\<close>. Each
  await is one event of the environment: how the sleep ended, whether
  \<^verbatim>\<open>_simulation_task_should_stop\<close> was set meanwhile, and what the other tasks did to
  the simulation. The loop consumes the events in order; when none is left it is still
  suspended. The tick function is a parameter (it is \<^verbatim>\<open>simulation.update\<close>).
\<close>

datatype sleep_result = Completed | Cancelled | Failed py_error

record await_event =
  sleep_result :: sleep_result
  stop_requested :: bool
  other_tasks :: "heap \<times> GravitySimulation \<Rightarrow> heap \<times> GravitySimulation"

datatype log_entry = LogInfo string | LogError py_error

datatype loop_exit = Finished | Raised py_error | Suspended

fun update_loop ::
  "(heap \<Rightarrow> GravitySimulation \<Rightarrow> real \<Rightarrow> py_error + (heap \<times> GravitySimulation)) \<Rightarrow> bool \<Rightarrow>
   heap \<times> GravitySimulation \<Rightarrow> await_event list \<Rightarrow> log_entry list \<Rightarrow> loop_exit \<times> log_entry list" where
  "update_loop upd should_stop (h, simulation) events logged =
     (if should_stop
      then (Finished, logged @ [LogInfo ''Background simulation update loop has finished.''])
      else (case (if \<not> paused simulation then upd h simulation (time_step_display simulation)
                  else Inr (h, simulation)) of
              Inl e \<Rightarrow> (Raised e, logged)
            | Inr st \<Rightarrow>
                (case events of
                   [] \<Rightarrow> (Suspended, logged)
                 | ev # rest \<Rightarrow>
                     (case sleep_result ev of
                        Completed \<Rightarrow> update_loop upd (stop_requested ev) (other_tasks ev st) rest logged
                      | Cancelled \<Rightarrow>
                          (Finished, logged @ [LogInfo ''Background simulation update loop cancelled.'',
                                            LogInfo ''Background simulation update loop has finished.''])
                      | Failed e \<Rightarrow>
                          (case rest of
                             [] \<Rightarrow> (Suspended, logged @ [LogError e])
                           | ev2 # rest2 \<Rightarrow>
                               (case sleep_result ev2 of
                                  Completed \<Rightarrow>
                                    update_loop upd (stop_requested ev \<or> stop_requested ev2)
                                      (other_tasks ev2 (other_tasks ev st)) rest2 (logged @ [LogError e])
                                | Cancelled \<Rightarrow> (Raised CancelledError, logged @ [LogError e])
                                | Failed e2 \<Rightarrow> (Raised e2, logged @ [LogError e])))))))"

definition run_simulation_update_loop ::
  "(heap \<Rightarrow> GravitySimulation \<Rightarrow> real \<Rightarrow> py_error + (heap \<times> GravitySimulation)) \<Rightarrow> bool \<Rightarrow>
   heap \<times> GravitySimulation \<Rightarrow> await_event list \<Rightarrow> loop_exit \<times> log_entry list" where
  "run_simulation_update_loop upd should_stop st events =
     update_loop upd should_stop st events [LogInfo ''Background simulation update loop starting...'']"

section \<open>Notions used in the statements\<close>


text \<open>The body that \<^verbatim>\<open>apply_force\<close> leaves behind.\<close>

definition after_force :: "CelestialBody \<Rightarrow> Vector2D \<Rightarrow> real \<Rightarrow> CelestialBody" where
  "after_force b f dt = (case apply_force b f dt of Inl e \<Rightarrow> b | Inr b' \<Rightarrow> b')"

section \<open>Example states\<close>

text \<open>The bodies and the simulation of the unit tests.\<close>

definition test_body :: CelestialBody where
  "test_body = \<lparr> body_id = ''test_body_1'', mass = 100, position = Vector2D 0 0,
                 velocity = Vector2D 0 0, radius = 5, color = (255, 255, 255), trail = [],
                 max_trail_length = 50 \<rparr>"

definition body_at_origin :: CelestialBody where
  "body_at_origin = \<lparr> body_id = ''body_at_origin'', mass = 10, position = Vector2D 0 0,
                      velocity = Vector2D 0 0, radius = 1, color = (0, 0, 0), trail = [],
                      max_trail_length = 50 \<rparr>"

definition body_on_x_axis :: CelestialBody where
  "body_on_x_axis = \<lparr> body_id = ''body_on_x_axis'', mass = 20, position = Vector2D 10 0,
                      velocity = Vector2D 0 0, radius = 1, color = (0, 0, 0), trail = [],
                      max_trail_length = 50 \<rparr>"

definition two_bodies :: heap where
  "two_bodies r = (if r = 0 then body_at_origin else body_on_x_axis)"

definition test_simulation :: GravitySimulation where
  "test_simulation = \<lparr> gravitational_constant = 100, bodies = [0, 1], epsilon = 0, paused = False,
                       time_step_display = 1 / 10, net_forces = Map.empty \<rparr>"

section \<open>Lemmas\<close>

lemma sqrt_100: "sqrt 100 = 10" by (rule real_sqrt_unique) simp_all

lemma py_div_nonzero: "b \<noteq> 0 \<Longrightarrow> py_div a b = Inr (a / b)"
  by (simp add: py_div_def)


lemma update_position_fields:
  "position (update_position b dt) = Vector2D_add (position b) (Vector2D_mul (velocity b) dt)"
  "velocity (update_position b dt) = velocity b"
  "mass (update_position b dt) = mass b"
  "radius (update_position b dt) = radius b"
  "color (update_position b dt) = color b"
  "body_id (update_position b dt) = body_id b"
  "max_trail_length (update_position b dt) = max_trail_length b"
  by (simp_all add: update_position_def Let_def)


lemma apply_force_total:
  "apply_force b f dt =
     Inr (if mass b = 0 then b
          else b\<lparr> velocity := Vector2D_add (velocity b) (Vector2D_mul (Vector2D_mul f (1 / mass b)) dt) \<rparr>)"
  by (simp add: apply_force_def py_div_nonzero)

lemma foldl_update_position_max:
  "max_trail_length (foldl update_position b dts) = max_trail_length b"
  by (induction dts arbitrary: b) (simp_all add: update_position_fields)





lemma apply_force_after_force: "apply_force b f dt = Inr (after_force b f dt)"
  by (simp add: after_force_def apply_force_total)

lemma apply_forces_loop_eq:
  "apply_forces_loop h F dt xs =
     Inr (\<lambda>a. ((\<lambda>b. after_force b (forces_get F a) dt) ^^ count_list xs a) (h a))"
proof (induction xs arbitrary: h)
  case Nil
  show ?case by simp
next
  case (Cons x xs)
  show ?case
    by (simp add: apply_force_after_force Cons.IH fun_eq_iff
          funpow_swap1[where f = "\<lambda>b. after_force b (forces_get F x) dt"])
qed

lemma update_positions_loop_eq:
  "update_positions_loop h dt xs =
     (\<lambda>a. ((\<lambda>b. update_position b dt) ^^ count_list xs a) (h a))"
proof (induction xs arbitrary: h)
  case Nil
  show ?case by simp
next
  case (Cons x xs)
  show ?case
    by (simp add: Cons.IH fun_eq_iff funpow_swap1[where f = "\<lambda>b. update_position b dt"])
qed

lemma calculate_net_forces_result:
  assumes "calculate_net_forces h s = Inr (F, h1, s1)"
  shows "h1 = h" and "s1 = s\<lparr> net_forces := F \<rparr>"
  using assms by (auto simp: calculate_net_forces_def split: sum.splits)

lemma pair_force_net_forces: "pair_force (s\<lparr> net_forces := F \<rparr>) A B = pair_force s A B"
  by (simp add: pair_force_def Let_def split: option.splits)

lemma net_force_loop_net_forces:
  "net_force_loop (s\<lparr> net_forces := F \<rparr>) h i a ps net = net_force_loop s h i a ps net"
proof (induction ps arbitrary: net)
  case Nil
  show ?case by simp
next
  case (Cons p ps)
  obtain j b where p: "p = (j, b)" by (cases p)
  show ?case
  proof (cases "i = j")
    case True
    with p have "p = (i, b)" by simp
    then show ?thesis by (simp add: Cons.IH)
  next
    case False
    then show ?thesis by (simp add: p Cons.IH pair_force_net_forces cong: sum.case_cong)
  qed
qed

lemma forces_loop_net_forces:
  "forces_loop (s\<lparr> net_forces := F \<rparr>) h ps cur = forces_loop s h ps cur"
proof (induction ps arbitrary: cur)
  case Nil
  show ?case by simp
next
  case (Cons p ps)
  obtain i a where p: "p = (i, a)" by (cases p)
  show ?case by (simp add: p Cons.IH net_force_loop_net_forces fun_upd_def cong: sum.case_cong)
qed

lemma test_forces:
  "calculate_net_forces two_bodies test_simulation =
     Inr ([0 \<mapsto> Vector2D 200 0, 1 \<mapsto> Vector2D (-200) 0], two_bodies,
          test_simulation\<lparr> net_forces := [0 \<mapsto> Vector2D 200 0, 1 \<mapsto> Vector2D (-200) 0] \<rparr>)"
  by (simp add: calculate_net_forces_def test_simulation_def two_bodies_def body_at_origin_def
        body_on_x_axis_def pair_force_def pow_half_def py_div_def Vector2D_sub_def Vector2D_add_def
        Vector2D_mul_def sqrt_100 enumerate_simps)

section \<open>Properties\<close>

text \<open>
  C1: when the simulation is not paused, \<^verbatim>\<open>update(dt)\<close> calls
  \<^verbatim>\<open>calculate_net_forces\<close> once on the state before the step (an exception of it ends
  the step); then every entry of \<^verbatim>\<open>bodies\<close> gets \<^verbatim>\<open>apply_force\<close> with its force of
  that one computation, and only then every entry gets \<^verbatim>\<open>update_position\<close>: a body that
  occurs \<open>n\<close> times has had \<open>n\<close> force applications followed by \<open>n\<close> position updates.
  For a body that occurs once, the new position is the old position plus \<open>dt\<close> times the
  velocity after the force of the same step.
\<close>

theorem update_forces_then_velocities_then_positions:
  assumes "\<not> paused s"
  shows "(\<forall>e. calculate_net_forces h s = Inl e \<longrightarrow> update h s dt = Inl e) \<and>
         (\<forall>F h1 s1. calculate_net_forces h s = Inr (F, h1, s1) \<longrightarrow>
            (\<exists>h'. update h s dt = Inr (h', s1) \<and>
               (\<forall>a. h' a = ((\<lambda>b. update_position b dt) ^^ count_list (bodies s) a)
                          (((\<lambda>b. after_force b (forces_get F a) dt) ^^ count_list (bodies s) a) (h a))) \<and>
               (\<forall>a. count_list (bodies s) a = 1 \<longrightarrow>
                    (\<exists>b'. apply_force (h a) (forces_get F a) dt = Inr b' \<and>
                          h' a = update_position b' dt \<and>
                          velocity (h' a) = velocity b' \<and>
                          position (h' a) = Vector2D_add (position (h a)) (Vector2D_mul (velocity b') dt)))))"
proof (intro conjI allI impI)
  fix e assume "calculate_net_forces h s = Inl e"
  then show "update h s dt = Inl e" using assms by (simp add: update_def)
next
  fix F h1 s1 assume c: "calculate_net_forces h s = Inr (F, h1, s1)"
  note r = calculate_net_forces_result[OF c]
  let ?n = "\<lambda>a. count_list (bodies s) a"
  let ?mid = "\<lambda>a. ((\<lambda>b. after_force b (forces_get F a) dt) ^^ ?n a) (h a)"
  let ?h' = "\<lambda>a. ((\<lambda>b. update_position b dt) ^^ ?n a) (?mid a)"
  have b1: "bodies s1 = bodies s" by (simp add: r)
  have u: "update h s dt = Inr (?h', s1)"
    using assms by (simp add: update_def c r(1) b1 apply_forces_loop_eq update_positions_loop_eq)
  have one: "\<exists>b'. apply_force (h a) (forces_get F a) dt = Inr b' \<and> ?h' a = update_position b' dt \<and>
                velocity (?h' a) = velocity b' \<and>
                position (?h' a) = Vector2D_add (position (h a)) (Vector2D_mul (velocity b') dt)"
    if "?n a = 1" for a
  proof -
    let ?b' = "after_force (h a) (forces_get F a) dt"
    have p: "position ?b' = position (h a)"
      by (simp add: after_force_def apply_force_total)
    have "?h' a = update_position ?b' dt" using that by simp
    then show ?thesis
      by (simp add: apply_force_after_force update_position_fields p)
  qed
  show "\<exists>h'. update h s dt = Inr (h', s1) \<and>
          (\<forall>a. h' a = ((\<lambda>b. update_position b dt) ^^ ?n a) (?mid a)) \<and>
          (\<forall>a. ?n a = 1 \<longrightarrow>
             (\<exists>b'. apply_force (h a) (forces_get F a) dt = Inr b' \<and> h' a = update_position b' dt \<and>
                  velocity (h' a) = velocity b' \<and>
                  position (h' a) = Vector2D_add (position (h a)) (Vector2D_mul (velocity b') dt)))"
    using u one by blast
qed

theorem update_forces_then_velocities_then_positions_witness:
  "\<not> paused test_simulation \<and>
   (\<exists>h' s1. update two_bodies test_simulation (1 / 10) = Inr (h', s1) \<and>
      velocity (h' 0) = Vector2D 2 0 \<and> position (h' 0) = Vector2D (1 / 5) 0 \<and>
      velocity (h' 1) = Vector2D (- 1) 0 \<and> position (h' 1) = Vector2D (99 / 10) 0)"
proof -
  let ?F = "[0 \<mapsto> Vector2D 200 0, 1 \<mapsto> Vector2D (-200) 0] :: ref \<rightharpoonup> Vector2D"
  have np: "\<not> paused test_simulation" by (simp add: test_simulation_def)
  from update_forces_then_velocities_then_positions[OF np, of two_bodies "1 / 10"] test_forces
  obtain h' where
    u: "update two_bodies test_simulation (1 / 10) = Inr (h', test_simulation\<lparr> net_forces := ?F \<rparr>)" and
    one: "\<forall>a. count_list (bodies test_simulation) a = 1 \<longrightarrow>
            (\<exists>b'. apply_force (two_bodies a) (forces_get ?F a) (1 / 10) = Inr b' \<and>
                  h' a = update_position b' (1 / 10) \<and> velocity (h' a) = velocity b' \<and>
                  position (h' a) = Vector2D_add (position (two_bodies a)) (Vector2D_mul (velocity b') (1 / 10)))"
    by blast
  have c0: "count_list (bodies test_simulation) 0 = 1" and c1: "count_list (bodies test_simulation) 1 = 1"
    by (simp_all add: test_simulation_def)
  from one c0 obtain b0 where
    b0: "apply_force (two_bodies 0) (forces_get ?F 0) (1 / 10) = Inr b0" "velocity (h' 0) = velocity b0"
        "position (h' 0) = Vector2D_add (position (two_bodies 0)) (Vector2D_mul (velocity b0) (1 / 10))"
    by blast
  from one c1 obtain b1 where
    b1: "apply_force (two_bodies 1) (forces_get ?F 1) (1 / 10) = Inr b1" "velocity (h' 1) = velocity b1"
        "position (h' 1) = Vector2D_add (position (two_bodies 1)) (Vector2D_mul (velocity b1) (1 / 10))"
    by blast
  have v0: "velocity b0 = Vector2D 2 0"
    using b0(1) by (auto simp: apply_force_def py_div_def forces_get_def two_bodies_def body_at_origin_def
        Vector2D_add_def Vector2D_mul_def)
  have v1: "velocity b1 = Vector2D (- 1) 0"
    using b1(1) by (auto simp: apply_force_def py_div_def forces_get_def two_bodies_def body_on_x_axis_def
        Vector2D_add_def Vector2D_mul_def)
  have p0: "position (h' 0) = Vector2D (1 / 5) 0"
    using b0(3) by (simp add: v0 two_bodies_def body_at_origin_def Vector2D_add_def Vector2D_mul_def)
  have p1: "position (h' 1) = Vector2D (99 / 10) 0"
    using b1(3) by (simp add: v1 two_bodies_def body_on_x_axis_def Vector2D_add_def Vector2D_mul_def)
  show ?thesis using np u b0(2) b1(2) v0 v1 p0 p1 by auto
qed

text \<open>
  C3: when the simulation is paused, \<^verbatim>\<open>update(dt)\<close> changes nothing, for every heap of
  bodies and every \<open>dt\<close>: the heap and the simulation come back as they were.
\<close>

theorem update_paused_noop:
  assumes "paused s"
  shows "update h s dt = Inr (h, s)"
  using assms by (simp add: update_def)

theorem update_paused_noop_witness:
  "paused (test_simulation\<lparr> paused := True \<rparr>) \<and>
   update two_bodies (test_simulation\<lparr> paused := True \<rparr>) (- 1) = Inr (two_bodies, test_simulation\<lparr> paused := True \<rparr>) \<and>
   update two_bodies (test_simulation\<lparr> paused := True \<rparr>) 0 = Inr (two_bodies, test_simulation\<lparr> paused := True \<rparr>)"
proof -
  have p: "paused (test_simulation\<lparr> paused := True \<rparr>)" by simp
  show ?thesis
    using p update_paused_noop[OF p, of two_bodies "- 1"] update_paused_noop[OF p, of two_bodies 0]
    by simp
qed

text \<open>
  C4: the call of \<^verbatim>\<open>simulation.update\<close> stands before the \<^verbatim>\<open>try\<close> of the loop,
  which guards the sleep only. When a tick raises, the exception leaves the loop: it is not
  caught, nothing is logged and no later tick runs, whatever the environment does next.
\<close>

theorem update_exception_terminates_loop:
  assumes "\<not> should_stop" and "\<not> paused simulation"
    and "upd h simulation (time_step_display simulation) = Inl e"
  shows "update_loop upd should_stop (h, simulation) events logged = (Raised e, logged)"
  using assms by simp

theorem update_exception_terminates_loop_witness:
  "\<not> paused (test_simulation\<lparr> epsilon := - 101 \<rparr>) \<and>
   update two_bodies (test_simulation\<lparr> epsilon := - 101 \<rparr>)
     (time_step_display (test_simulation\<lparr> epsilon := - 101 \<rparr>)) = Inl TypeError \<and>
   update_loop update False (two_bodies, test_simulation\<lparr> epsilon := - 101 \<rparr>)
     [\<lparr> sleep_result = Completed, stop_requested = False, other_tasks = id \<rparr>] [] = (Raised TypeError, [])"
proof -
  let ?s = "test_simulation\<lparr> epsilon := - 101 \<rparr>"
  have np: "\<not> paused ?s" by (simp add: test_simulation_def)
  have r: "update two_bodies ?s (time_step_display ?s) = Inl TypeError"
    by (simp add: update_def calculate_net_forces_def test_simulation_def two_bodies_def body_at_origin_def
        body_on_x_axis_def pair_force_def pow_half_def Vector2D_sub_def enumerate_simps)
  have ns: "\<not> False" by simp
  from update_exception_terminates_loop[where upd = update and should_stop = False, OF ns np r] np r
  show ?thesis by blast
qed




text \<open>
  C7: the constructor raises if and only if \<open>mass \<le> 0\<close> or \<open>radius \<le> 0\<close>; when it
  returns a body, the body has the arguments as they were given and an empty trail.
\<close>

theorem CelestialBody_init_spec:
  "((\<exists>e. CelestialBody_init m p v r c i = Inl e) \<longleftrightarrow> (m \<le> 0 \<or> r \<le> 0)) \<and>
   (\<forall>b. CelestialBody_init m p v r c i = Inr b \<longrightarrow>
        body_id b = i \<and> mass b = m \<and> position b = p \<and> velocity b = v \<and> radius b = r \<and>
        color b = c \<and> trail b = [])"
  by (auto simp: CelestialBody_init_def)

theorem CelestialBody_init_spec_witness:
  "CelestialBody_init 100 (Vector2D 0 0) (Vector2D 0 0) 5 (255, 255, 255) ''test_body_1'' = Inr test_body \<and>
   (\<exists>e. CelestialBody_init 0 (Vector2D 0 0) (Vector2D 0 0) 5 (255, 255, 255) ''test_body_1'' = Inl e) \<and>
   (\<exists>e. CelestialBody_init 100 (Vector2D 0 0) (Vector2D 0 0) (- 1) (255, 255, 255) ''test_body_1'' = Inl e)"
proof -
  have ok: "CelestialBody_init 100 (Vector2D 0 0) (Vector2D 0 0) 5 (255, 255, 255) ''test_body_1'' = Inr test_body"
    by (simp add: CelestialBody_init_def test_body_def)
  have "(0::real) \<le> 0 \<or> (5::real) \<le> 0" by simp
  with CelestialBody_init_spec[of 0 "Vector2D 0 0" "Vector2D 0 0" 5 "(255, 255, 255)" "''test_body_1''"]
  have e1: "\<exists>e. CelestialBody_init 0 (Vector2D 0 0) (Vector2D 0 0) 5 (255, 255, 255) ''test_body_1'' = Inl e"
    by blast
  have "(100::real) \<le> 0 \<or> (- 1::real) \<le> 0" by simp
  with CelestialBody_init_spec[of 100 "Vector2D 0 0" "Vector2D 0 0" "- 1" "(255, 255, 255)" "''test_body_1''"]
  have e2: "\<exists>e. CelestialBody_init 100 (Vector2D 0 0) (Vector2D 0 0) (- 1) (255, 255, 255) ''test_body_1'' = Inl e"
    by blast
  from ok e1 e2 show ?thesis by blast
qed

text \<open>
  C9: a call of \<^verbatim>\<open>calculate_net_forces\<close> that returns leaves the heap of bodies, the
  sequence of bodies, the gravitational constant, epsilon, the paused flag and the displayed
  time step as they were, and a second call right after it returns the same mapping and the
  same state.
\<close>

theorem calculate_net_forces_idempotent_read_only:
  "\<forall>F h1 s1. calculate_net_forces h s = Inr (F, h1, s1) \<longrightarrow>
       calculate_net_forces h1 s1 = Inr (F, h1, s1) \<and> h1 = h \<and>
       bodies s1 = bodies s \<and> gravitational_constant s1 = gravitational_constant s \<and>
       epsilon s1 = epsilon s \<and> paused s1 = paused s \<and> time_step_display s1 = time_step_display s"
proof (intro conjI allI impI)
  fix F h1 s1 assume c: "calculate_net_forces h s = Inr (F, h1, s1)"
  note r = calculate_net_forces_result[OF c]
  have "calculate_net_forces h (s\<lparr> net_forces := F \<rparr>) = Inr (F, h, s\<lparr> net_forces := F \<rparr>)"
    using c by (simp add: calculate_net_forces_def forces_loop_net_forces split: sum.splits)
  then show "calculate_net_forces h1 s1 = Inr (F, h1, s1)" by (simp add: r)
  show "h1 = h" by (rule r)
  show "bodies s1 = bodies s" "gravitational_constant s1 = gravitational_constant s"
    "epsilon s1 = epsilon s" "paused s1 = paused s" "time_step_display s1 = time_step_display s"
    by (simp_all add: r)
qed

theorem calculate_net_forces_idempotent_read_only_witness:
  "\<exists>F s1. calculate_net_forces two_bodies test_simulation = Inr (F, two_bodies, s1) \<and>
          calculate_net_forces two_bodies s1 = Inr (F, two_bodies, s1) \<and>
          F 0 = Some (Vector2D 200 0) \<and> bodies s1 = [0, 1] \<and> \<not> paused s1"
proof -
  let ?F = "[0 \<mapsto> Vector2D 200 0, 1 \<mapsto> Vector2D (-200) 0] :: ref \<rightharpoonup> Vector2D"
  let ?s1 = "test_simulation\<lparr> net_forces := ?F \<rparr>"
  have c: "calculate_net_forces two_bodies test_simulation = Inr (?F, two_bodies, ?s1)"
    by (rule test_forces)
  from calculate_net_forces_idempotent_read_only[of two_bodies test_simulation] c
  have again: "calculate_net_forces two_bodies ?s1 = Inr (?F, two_bodies, ?s1)"
    and b: "bodies ?s1 = bodies test_simulation" and p: "paused ?s1 = paused test_simulation"
    by blast+
  have "?F 0 = Some (Vector2D 200 0)" by simp
  moreover have "bodies ?s1 = [0, 1]" "\<not> paused ?s1"
    unfolding b p by (simp_all add: test_simulation_def)
  ultimately show ?thesis using c again by blast
qed

text \<open>
  C10: \<^verbatim>\<open>apply_force\<close> changes no field but the velocity, and
  \<^verbatim>\<open>update_position\<close> changes no field but the position and the trail.
\<close>

theorem frame_conditions:
  "(\<forall>b'. apply_force b f dt = Inr b' \<longrightarrow>
        position b' = position b \<and> trail b' = trail b \<and> mass b' = mass b \<and>
        radius b' = radius b \<and> color b' = color b \<and> body_id b' = body_id b \<and>
        max_trail_length b' = max_trail_length b) \<and>
   velocity (update_position b dt') = velocity b \<and> mass (update_position b dt') = mass b \<and>
   radius (update_position b dt') = radius b \<and> color (update_position b dt') = color b \<and>
   body_id (update_position b dt') = body_id b \<and>
   max_trail_length (update_position b dt') = max_trail_length b"
  by (simp add: apply_force_total update_position_fields)

theorem frame_conditions_witness:
  "(\<exists>b'. apply_force test_body (Vector2D 200 100) (1 / 10) = Inr b' \<and>
         position b' = position test_body \<and> trail b' = [] \<and> mass b' = 100 \<and>
         max_trail_length b' = 50) \<and>
   velocity (update_position test_body 1) = velocity test_body \<and>
   mass (update_position test_body 1) = 100"
proof -
  have a: "apply_force test_body (Vector2D 200 100) (1 / 10) =
           Inr (test_body\<lparr> velocity := Vector2D (1 / 5) (1 / 10) \<rparr>)"
    by (simp add: apply_force_def py_div_def test_body_def Vector2D_add_def Vector2D_mul_def)
  from frame_conditions[of test_body "Vector2D 200 100" "1 / 10" 1] a
  show ?thesis by (simp add: test_body_def)
qed

end
